theory Spec2Isabelle
  imports Complex_Main
begin

section \<open>Arrays, errors and the description of a semidefinite program\<close>

text \<open>
  The three source files work on two-dimensional numpy arrays with complex entries:
  Choi matrices (\<open>diamond_norm\<close>), column vectors (\<open>state_exclusion\<close>) and general
  matrices (\<open>realignment\<close>). An array is its shape, a pair (rows, columns), and its
  entries, read by row and column index. Python floats are modelled as real numbers, so
  rounding, infinities and NaN are outside the model.
\<close>

record ndarray =
  shape :: "nat \<times> nat"
  elems :: "nat \<Rightarrow> nat \<Rightarrow> complex"

text \<open>\<open>a - b\<close> and \<open>a + b\<close> on arrays of one shape (the only use the sources make of them).\<close>

definition nd_sub :: "ndarray \<Rightarrow> ndarray \<Rightarrow> ndarray" where
  "nd_sub a b = \<lparr>shape = shape a, elems = (\<lambda>i j. elems a i j - elems b i j)\<rparr>"

definition nd_add :: "ndarray \<Rightarrow> ndarray \<Rightarrow> ndarray" where
  "nd_add a b = \<lparr>shape = shape a, elems = (\<lambda>i j. elems a i j + elems b i j)\<rparr>"

text \<open>\<open>a.conj()\<close>, \<open>a.T\<close>, \<open>a / r\<close>, \<open>r * a\<close>, \<open>a @ b\<close> and \<open>np.eye(n)\<close>.\<close>

definition nd_conj :: "ndarray \<Rightarrow> ndarray" where
  "nd_conj a = \<lparr>shape = shape a, elems = (\<lambda>i j. cnj (elems a i j))\<rparr>"

definition nd_T :: "ndarray \<Rightarrow> ndarray" where
  "nd_T a = \<lparr>shape = (snd (shape a), fst (shape a)), elems = (\<lambda>i j. elems a j i)\<rparr>"

definition nd_div :: "ndarray \<Rightarrow> real \<Rightarrow> ndarray" where
  "nd_div a r = \<lparr>shape = shape a, elems = (\<lambda>i j. elems a i j / complex_of_real r)\<rparr>"

definition nd_scale :: "real \<Rightarrow> ndarray \<Rightarrow> ndarray" where
  "nd_scale r a = \<lparr>shape = shape a, elems = (\<lambda>i j. complex_of_real r * elems a i j)\<rparr>"

definition nd_matmul :: "ndarray \<Rightarrow> ndarray \<Rightarrow> ndarray" where
  "nd_matmul a b =
     \<lparr>shape = (fst (shape a), snd (shape b)),
      elems = (\<lambda>i j. \<Sum>k < snd (shape a). elems a i k * elems b k j)\<rparr>"

definition np_eye :: "nat \<Rightarrow> ndarray" where
  "np_eye n = \<lparr>shape = (n, n), elems = (\<lambda>i j. if i = j then 1 else 0)\<rparr>"

text \<open>
  The exceptions the sources raise or let through. A \<open>ValueError\<close> raised by the sources
  carries the message the source gives it. A \<open>ValueError\<close> raised inside numpy, cvxpy or
  picos while the sources build their arrays, variables and expressions carries the name of
  the library and the cause; the library's own wording is not modelled. \<open>SolverError\<close>
  stands for whatever the solver raises.
\<close>

datatype error =
    ValueError string
  | IndexError
  | ZeroDivisionError
  | SolverError string

fun is_ValueError :: "error \<Rightarrow> bool" where
  "is_ValueError (ValueError m) = True"
| "is_ValueError e = False"

text \<open>
  Both engines build a problem object of a modelling library (cvxpy, picos) and hand it to
  the library's \<open>solve\<close>. The problem is data: expressions over declared variables,
  constraints between expressions and an objective with a direction. The constructors are
  the library calls the sources make.
\<close>

datatype expr =
    Variable string nat nat           \<comment> \<open>\<open>cvxpy.Variable([r, c], complex=True)\<close>\<close>
  | HermitianVariable string nat nat  \<comment> \<open>\<open>picos.HermitianVariable(name, (r, c))\<close>\<close>
  | Parameter string nat nat          \<comment> \<open>\<open>cvxpy.Parameter([r, c], complex=True)\<close>\<close>
  | Const ndarray                     \<comment> \<open>a numpy array used as a constant\<close>
  | Num real                          \<comment> \<open>a Python number used as a constant\<close>
  | Ident nat                         \<comment> \<open>\<open>picos.I(n)\<close>\<close>
  | Herm expr                         \<comment> \<open>\<open>e.H\<close>\<close>
  | Sub expr expr                     \<comment> \<open>\<open>a - b\<close>\<close>
  | Kron expr expr                    \<comment> \<open>\<open>cvxpy.kron(a, b)\<close>\<close>
  | Trace expr                        \<comment> \<open>\<open>cvxpy.trace(e)\<close>, \<open>picos.trace(e)\<close>\<close>
  | Real expr                         \<comment> \<open>\<open>cvxpy.real(e)\<close>\<close>
  | MatMul expr expr                  \<comment> \<open>\<open>a @ b\<close>\<close>
  | Sum "expr list"                   \<comment> \<open>\<open>picos.sum(es)\<close>\<close>
  | Inner expr expr                   \<comment> \<open>\<open>(a | b)\<close> of picos\<close>

datatype constr =
    Eq expr expr      \<comment> \<open>\<open>a == b\<close>\<close>
  | Geq expr expr     \<comment> \<open>\<open>a >> b\<close>\<close>
  | Leq expr expr     \<comment> \<open>\<open>a << b\<close>\<close>

datatype objective = Maximize expr | Minimize expr

record problem =
  objective :: objective
  constraints :: "constr list"
  param_values :: "string \<rightharpoonup> ndarray"

text \<open>
  cvxpy combines two expressions in a sum or difference only when their shapes are equal or
  one of them is a scalar (all sides \<open>1\<close>); otherwise the operator raises \<open>ValueError\<close>.
\<close>

definition broadcastable :: "nat \<times> nat \<Rightarrow> nat \<times> nat \<Rightarrow> bool" where
  "broadcastable s t \<longleftrightarrow> s = t \<or> s = (1, 1) \<or> t = (1, 1)"

section \<open>\<open>channel_metrics/diamond_norm.py\<close>\<close>

text \<open>
  \<open>int(np.sqrt(n))\<close> for a natural number \<open>n\<close>: the largest \<open>r\<close> with \<open>r * r \<le> n\<close>.
\<close>

primrec isqrt :: "nat \<Rightarrow> nat" where
  "isqrt 0 = 0"
| "isqrt (Suc n) = (let r = isqrt n in if (r + 1) * (r + 1) \<le> Suc n then r + 1 else r)"

text \<open>
  Lines 51 to 83: the two checks, then the problem. The cvxpy variables are named after
  the Python identifiers they are bound to. At line 77 the difference of \<open>w_var\<close>, of side
  \<open>dim_squared\<close>, and the Kronecker product, of side \<open>dim * dim\<close>, is formed; cvxpy raises
  \<open>ValueError\<close> there when the two shapes cannot be combined.
\<close>

definition diamond_norm_problem :: "ndarray \<Rightarrow> ndarray \<Rightarrow> error + problem" where
  "diamond_norm_problem choi_1 choi_2 =
     (if shape choi_1 \<noteq> shape choi_2
      then Inl (ValueError ''The Choi matrices provided should be of equal dimension.'')
      else
        let (choi_dim_x, choi_dim_y) = shape choi_1 in
        if choi_dim_x \<noteq> choi_dim_y
        then Inl (ValueError ''The Choi matrix provided must be square.'')
        else
          let dim_squared = fst (shape choi_1);
              dim = isqrt dim_squared;
              delta_choi = nd_sub choi_1 choi_2;
              delta_choi = nd_div (nd_add (nd_T (nd_conj delta_choi)) delta_choi) 2;
              rho = Variable ''rho'' dim dim;
              constraints = [Eq rho (Herm rho)];
              constraints = constraints @ [Geq rho (Num 0)];
              constraints = constraints @ [Eq (Trace rho) (Num 1)];
              w_var = Variable ''w_var'' dim_squared dim_squared;
              constraints = constraints @ [Eq w_var (Herm w_var)];
              constraints = constraints @ [Geq w_var (Num 0)]
          in if \<not> broadcastable (dim_squared, dim_squared) (dim * dim, dim * dim)
             then Inl (ValueError ''cvxpy: cannot broadcast dimensions'')
             else
               let constraints =
                     constraints @ [Leq (Sub w_var (Kron (Const (np_eye dim)) rho)) (Num 0)];
                   j_var = Parameter ''j_var'' dim_squared dim_squared;
                   objective = Maximize (Real (Trace (MatMul (Herm j_var) w_var)))
               in Inr \<lparr>objective = objective, constraints = constraints,
                       param_values = [''j_var'' \<mapsto> delta_choi]\<rparr>)"

text \<open>
  Lines 84 to 86: \<open>problem.solve()\<close>, then \<open>problem.value * 2\<close>. The solver is a parameter:
  it gives the optimal value or raises.
\<close>

definition diamond_norm :: "(problem \<Rightarrow> error + real) \<Rightarrow> ndarray \<Rightarrow> ndarray \<Rightarrow> error + real" where
  "diamond_norm solve choi_1 choi_2 =
     (case diamond_norm_problem choi_1 choi_2 of
        Inl e \<Rightarrow> Inl e
      | Inr problem \<Rightarrow> (case solve problem of Inl e \<Rightarrow> Inl e | Inr v \<Rightarrow> Inr (v * 2)))"

section \<open>\<open>state_opt/state_exclusion.py\<close>\<close>

text \<open>
  An argument with a default value is either left out by the caller or given. \<open>probs\<close> has
  the default \<open>None\<close>, which is also a value the caller may pass, so it is an option.
\<close>

datatype 'a arg = Omitted | Given 'a

fun arg_default :: "'a \<Rightarrow> 'a arg \<Rightarrow> 'a" where
  "arg_default d Omitted = d"
| "arg_default d (Given x) = x"

text \<open>
  What picos hands back: \<open>solution.value\<close> and, for the constraint with index \<open>k\<close> of the
  problem, \<open>problem.get_constraint(k).dual\<close>. The solver is a parameter again; it takes the
  problem and the solver's name.
\<close>

record solution =
  sol_value :: real
  constraint_dual :: "nat \<Rightarrow> ndarray"

type_synonym picos_solver = "problem \<Rightarrow> string \<Rightarrow> error + solution"

text \<open>
  The second component of the result: the primal mode returns its variable objects, the dual
  mode returns dual values of constraints.
\<close>

datatype operator = VariableObject expr | DualValue ndarray

text \<open>The decimal digits of \<open>i\<close>, for the variable names \<open>f"M[{i}]"\<close>.\<close>

fun string_of_nat :: "nat \<Rightarrow> string" where
  "string_of_nat n =
     (if n < 10 then [''0123456789'' ! n]
      else string_of_nat (n div 10) @ [''0123456789'' ! (n mod 10)])"

text \<open>\<open>probs[i] * vectors[i] @ vectors[i].conj().T\<close>: Python reads it as \<open>(p * v) @ (v.conj().T)\<close>.\<close>

definition weighted_outer :: "real \<Rightarrow> ndarray \<Rightarrow> ndarray" where
  "weighted_outer p vector = nd_matmul (nd_scale p vector) (nd_T (nd_conj vector))"

text \<open>
  picos refuses a variable with a side of zero: \<open>picos.HermitianVariable(name, (0, 0))\<close>
  raises \<open>ValueError\<close>.

  Lines 115 to 139, the function \<open>_min_error_primal\<close> (a name cannot start with an
  underscore here). \<open>vectors[0]\<close> raises \<open>IndexError\<close> on an empty list, and so does
  \<open>probs[i]\<close> for an index beyond the list.
\<close>

definition min_error_primal ::
  "picos_solver \<Rightarrow> ndarray list \<Rightarrow> real list \<Rightarrow> string \<Rightarrow> error + real \<times> operator list" where
  "min_error_primal solve vectors probs solver =
     (case vectors of
        [] \<Rightarrow> Inl IndexError
      | v0 # _ \<Rightarrow>
          let n = length vectors;
              dim = fst (shape v0)
          in if dim = 0 then Inl (ValueError ''picos: variable with a side of zero'')
             else
             let measurements =
                   map (\<lambda>i. HermitianVariable (''M['' @ string_of_nat i @ '']'') dim dim) [0..<n];
                 constraints = map (\<lambda>meas. Geq meas (Num 0)) measurements;
                 constraints = constraints @ [Eq (Sum measurements) (Ident dim)]
             in
             if length probs < n then Inl IndexError
             else
               let objective =
                     Minimize (Sum (map (\<lambda>i. Inner (Const (weighted_outer (probs ! i) (vectors ! i)))
                                                  (measurements ! i)) [0..<n]))
               in case solve \<lparr>objective = objective, constraints = constraints,
                              param_values = Map.empty\<rparr> solver of
                    Inl e \<Rightarrow> Inl e
                  | Inr solution \<Rightarrow> Inr (sol_value solution, map VariableObject measurements))"

text \<open>Lines 142 to 166, the function \<open>_min_error_dual\<close>.\<close>

definition min_error_dual ::
  "picos_solver \<Rightarrow> ndarray list \<Rightarrow> real list \<Rightarrow> string \<Rightarrow> error + real \<times> operator list" where
  "min_error_dual solve vectors probs solver =
     (case vectors of
        [] \<Rightarrow> Inl IndexError
      | v0 # _ \<Rightarrow>
          let n = length vectors;
              dim = fst (shape v0)
          in if dim = 0 then Inl (ValueError ''picos: variable with a side of zero'')
             else
             let y_var = HermitianVariable ''Y'' dim dim in
             if length probs < n then Inl IndexError
             else
               let constraints =
                     map (\<lambda>(i, vector). Leq y_var (Const (weighted_outer (probs ! i) vector)))
                       (List.enumerate 0 vectors);
                   objective = Maximize (Trace y_var)
               in case solve \<lparr>objective = objective, constraints = constraints,
                              param_values = Map.empty\<rparr> solver of
                    Inl e \<Rightarrow> Inl e
                  | Inr solution \<Rightarrow>
                      Inr (sol_value solution,
                           map (\<lambda>k. DualValue (constraint_dual solution k)) [0..<n]))"

text \<open>
  Lines 103 to 112. \<open>all(...)\<close> over an empty list is true without reading \<open>vectors[0]\<close>;
  line 107 then raises \<open>IndexError\<close>. \<open>1 / n\<close> raises \<open>ZeroDivisionError\<close> for \<open>n = 0\<close>.
\<close>

definition state_exclusion ::
  "picos_solver \<Rightarrow> ndarray list \<Rightarrow> real list option \<Rightarrow> string arg \<Rightarrow> string arg
     \<Rightarrow> error + real \<times> operator list" where
  "state_exclusion solve vectors probs solver primal_dual =
     (if \<not> list_all (\<lambda>vector. shape vector = shape (hd vectors)) vectors
      then Inl (ValueError ''Vectors for state exclusion must all have the same dimension.'')
      else
        case vectors of
          [] \<Rightarrow> Inl IndexError
        | v0 # _ \<Rightarrow>
            let n = fst (shape v0) in
            case (case probs of
                    None \<Rightarrow> if n = 0 then Inl ZeroDivisionError
                            else Inr (replicate n (1 / real n))
                  | Some ps \<Rightarrow> Inr ps) of
              Inl e \<Rightarrow> Inl e
            | Inr probs \<Rightarrow>
                if arg_default ''dual'' primal_dual = ''primal''
                then min_error_primal solve vectors probs (arg_default ''cvxopt'' solver)
                else min_error_dual solve vectors probs (arg_default ''cvxopt'' solver))"

section \<open>\<open>super_operators/realignment.py\<close>\<close>


definition eps :: real where
  "eps = 1 / 2 ^ 52"

text \<open>\<open>np.round(x)\<close>: to the nearest integer, a half to the even neighbour.\<close>

definition np_round :: "real \<Rightarrow> int" where
  "np_round x =
     (let f = \<lfloor>x\<rfloor> in
      if x - real_of_int f < 1 / 2 then f
      else if 1 / 2 < x - real_of_int f then f + 1
      else if even f then f else f + 1)"

text \<open>\<open>np.round(np.sqrt(n))\<close>, computed on natural numbers.\<close>

definition round_sqrt :: "nat \<Rightarrow> nat" where
  "round_sqrt n = (let r = isqrt n in if n - r * r \<le> r then r else r + 1)"




text \<open>
  Lines 64 to 69 of the file: the \<open>int\<close> case. \<open>dim_mat[0] / dim\<close> divides two Python
  integers: it raises \<open>ZeroDivisionError\<close> for \<open>dim = 0\<close> and is otherwise the double nearest
  to the quotient. The test compares the distance of that double to its nearest integer,
  computed in doubles, with the double \<open>2 * dim_mat[0] * eps\<close>.
\<close>

definition int_dim :: "(real \<Rightarrow> real) \<Rightarrow> nat \<Rightarrow> int \<Rightarrow> error + real list list" where
  "int_dim fl rows d =
     (if d = 0 then Inl ZeroDivisionError
      else
        let dim = [[fl (real_of_int d)], [fl (real rows / real_of_int d)]];
            dim1 = dim ! 1 ! 0
        in if \<bar>fl (dim1 - real_of_int (np_round dim1))\<bar> \<ge> fl (fl (2 * real rows) * eps)
           then Inl (ValueError ''InvalidDim:'')
           else
             let dim = dim[1 := [real_of_int (np_round dim1)]];
                 dim = [[1], [4]]
             in Inr dim)"




section \<open>What a problem description means\<close>

text \<open>
  The modelling libraries are not part of the package; what their expressions and
  constraints denote is written here after their documented conventions (and section 4.1
  of the specification): \<open>e.H\<close> is the conjugate transpose, \<open>a >> b\<close> and \<open>a << b\<close> are the
  Loewner order, \<open>(a | b)\<close> is \<open>Tr(a b\<^sup>H)\<close>.

  The value of an expression under an assignment \<open>env\<close> of arrays to the variables, with the
  values \<open>pv\<close> given to the parameters. A scalar is a \<open>1 \<times> 1\<close> array, and a subtraction
  with a scalar on one side spreads the scalar over the other side's shape.
\<close>

definition scalar :: "complex \<Rightarrow> ndarray" where
  "scalar z = \<lparr>shape = (1, 1), elems = (\<lambda>i j. z)\<rparr>"

definition broadcast_sub :: "ndarray \<Rightarrow> ndarray \<Rightarrow> ndarray" where
  "broadcast_sub a b =
     (if shape a = (1, 1) then \<lparr>shape = shape b, elems = (\<lambda>i j. elems a 0 0 - elems b i j)\<rparr>
      else if shape b = (1, 1) then \<lparr>shape = shape a, elems = (\<lambda>i j. elems a i j - elems b 0 0)\<rparr>
      else nd_sub a b)"

definition compatible :: "ndarray \<Rightarrow> ndarray \<Rightarrow> bool" where
  "compatible a b \<longleftrightarrow> broadcastable (shape a) (shape b)"

definition nd_kron :: "ndarray \<Rightarrow> ndarray \<Rightarrow> ndarray" where
  "nd_kron a b =
     \<lparr>shape = (fst (shape a) * fst (shape b), snd (shape a) * snd (shape b)),
      elems = (\<lambda>i j. elems a (i div fst (shape b)) (j div snd (shape b))
                     * elems b (i mod fst (shape b)) (j mod snd (shape b)))\<rparr>"

definition nd_trace :: "ndarray \<Rightarrow> complex" where
  "nd_trace a = (\<Sum>i < fst (shape a). elems a i i)"

definition nd_real :: "ndarray \<Rightarrow> ndarray" where
  "nd_real a = \<lparr>shape = shape a, elems = (\<lambda>i j. complex_of_real (Re (elems a i j)))\<rparr>"

definition nd_inner :: "ndarray \<Rightarrow> ndarray \<Rightarrow> complex" where
  "nd_inner a b = (\<Sum>i < fst (shape a). \<Sum>j < snd (shape a). elems a i j * cnj (elems b i j))"

fun nd_sum :: "ndarray list \<Rightarrow> ndarray" where
  "nd_sum [] = scalar 0"
| "nd_sum [a] = a"
| "nd_sum (a # as) = nd_add a (nd_sum as)"

fun eval :: "(string \<Rightarrow> ndarray) \<Rightarrow> (string \<rightharpoonup> ndarray) \<Rightarrow> expr \<Rightarrow> ndarray" where
  "eval env pv (Variable x r c) = env x"
| "eval env pv (HermitianVariable x r c) = env x"
| "eval env pv (Parameter x r c) =
     (case pv x of Some a \<Rightarrow> a | None \<Rightarrow> \<lparr>shape = (r, c), elems = (\<lambda>i j. 0)\<rparr>)"
| "eval env pv (Const a) = a"
| "eval env pv (Num r) = scalar (complex_of_real r)"
| "eval env pv (Ident n) = np_eye n"
| "eval env pv (Herm e) = nd_T (nd_conj (eval env pv e))"
| "eval env pv (Sub a b) = broadcast_sub (eval env pv a) (eval env pv b)"
| "eval env pv (Kron a b) = nd_kron (eval env pv a) (eval env pv b)"
| "eval env pv (Trace e) = scalar (nd_trace (eval env pv e))"
| "eval env pv (Real e) = nd_real (eval env pv e)"
| "eval env pv (MatMul a b) = nd_matmul (eval env pv a) (eval env pv b)"
| "eval env pv (Sum es) = nd_sum (map (eval env pv) es)"
| "eval env pv (Inner a b) = scalar (nd_inner (eval env pv a) (eval env pv b))"

text \<open>
  A Hermitian array equals its conjugate transpose; a positive semidefinite one is square
  with a real, non-negative quadratic form.
\<close>

definition hermitian :: "ndarray \<Rightarrow> bool" where
  "hermitian a \<longleftrightarrow>
     fst (shape a) = snd (shape a) \<and>
     (\<forall>i < fst (shape a). \<forall>j < fst (shape a). elems a i j = cnj (elems a j i))"

definition quad_form :: "ndarray \<Rightarrow> (nat \<Rightarrow> complex) \<Rightarrow> complex" where
  "quad_form a x = (\<Sum>i < fst (shape a). \<Sum>j < snd (shape a). cnj (x i) * elems a i j * x j)"

definition psd :: "ndarray \<Rightarrow> bool" where
  "psd a \<longleftrightarrow>
     fst (shape a) = snd (shape a) \<and> (\<forall>x. Im (quad_form a x) = 0 \<and> 0 \<le> Re (quad_form a x))"

definition all_zero :: "ndarray \<Rightarrow> bool" where
  "all_zero a \<longleftrightarrow> (\<forall>i < fst (shape a). \<forall>j < snd (shape a). elems a i j = 0)"

fun sat :: "(string \<Rightarrow> ndarray) \<Rightarrow> (string \<rightharpoonup> ndarray) \<Rightarrow> constr \<Rightarrow> bool" where
  "sat env pv (Eq a b) \<longleftrightarrow>
     compatible (eval env pv a) (eval env pv b) \<and>
     all_zero (broadcast_sub (eval env pv a) (eval env pv b))"
| "sat env pv (Geq a b) \<longleftrightarrow>
     compatible (eval env pv a) (eval env pv b) \<and>
     psd (broadcast_sub (eval env pv a) (eval env pv b))"
| "sat env pv (Leq a b) \<longleftrightarrow>
     compatible (eval env pv a) (eval env pv b) \<and>
     psd (broadcast_sub (eval env pv b) (eval env pv a))"

text \<open>
  An assignment fits an expression when every variable has its declared shape, and every
  \<open>HermitianVariable\<close> is Hermitian.
\<close>

fun fits :: "(string \<Rightarrow> ndarray) \<Rightarrow> expr \<Rightarrow> bool" where
  "fits env (Variable x r c) \<longleftrightarrow> shape (env x) = (r, c)"
| "fits env (HermitianVariable x r c) \<longleftrightarrow> shape (env x) = (r, c) \<and> hermitian (env x)"
| "fits env (Parameter x r c) \<longleftrightarrow> True"
| "fits env (Const a) \<longleftrightarrow> True"
| "fits env (Num r) \<longleftrightarrow> True"
| "fits env (Ident n) \<longleftrightarrow> True"
| "fits env (Herm e) \<longleftrightarrow> fits env e"
| "fits env (Sub a b) \<longleftrightarrow> fits env a \<and> fits env b"
| "fits env (Kron a b) \<longleftrightarrow> fits env a \<and> fits env b"
| "fits env (Trace e) \<longleftrightarrow> fits env e"
| "fits env (Real e) \<longleftrightarrow> fits env e"
| "fits env (MatMul a b) \<longleftrightarrow> fits env a \<and> fits env b"
| "fits env (Sum es) \<longleftrightarrow> list_all (fits env) es"
| "fits env (Inner a b) \<longleftrightarrow> fits env a \<and> fits env b"

fun fits_constr :: "(string \<Rightarrow> ndarray) \<Rightarrow> constr \<Rightarrow> bool" where
  "fits_constr env (Eq a b) \<longleftrightarrow> fits env a \<and> fits env b"
| "fits_constr env (Geq a b) \<longleftrightarrow> fits env a \<and> fits env b"
| "fits_constr env (Leq a b) \<longleftrightarrow> fits env a \<and> fits env b"

definition feasible :: "(string \<Rightarrow> ndarray) \<Rightarrow> problem \<Rightarrow> bool" where
  "feasible env p \<longleftrightarrow>
     list_all (fits_constr env) (constraints p) \<and>
     list_all (sat env (param_values p)) (constraints p)"

fun objective_expr :: "objective \<Rightarrow> expr" where
  "objective_expr (Maximize e) = e"
| "objective_expr (Minimize e) = e"

definition objective_value :: "(string \<Rightarrow> ndarray) \<Rightarrow> problem \<Rightarrow> real" where
  "objective_value env p = Re (elems (eval env (param_values p) (objective_expr (objective p))) 0 0)"

text \<open>
  The optimal value of a problem: attained at a feasible assignment and not exceeded (for a
  maximization; not undercut, for a minimization) at any feasible assignment.
\<close>

definition optimal_value :: "problem \<Rightarrow> real \<Rightarrow> bool" where
  "optimal_value p v \<longleftrightarrow>
     (\<exists>env. feasible env p \<and> objective_value env p = v) \<and>
     (\<forall>env. feasible env p \<longrightarrow>
        (case objective p of
           Maximize e \<Rightarrow> objective_value env p \<le> v
         | Minimize e \<Rightarrow> v \<le> objective_value env p))"

section \<open>The Watrous program, as the specification words it\<close>

text \<open>
  The difference operator is Hermitized by averaging with its conjugate transpose. The
  variables are \<open>\<rho>\<close>, a \<open>d \<times> d\<close> Hermitian positive semidefinite array of trace one, and
  \<open>W\<close>, a \<open>d\<^sup>2 \<times> d\<^sup>2\<close> Hermitian positive semidefinite array below \<open>I\<^sub>d \<otimes> \<rho>\<close> in the
  Loewner order. The objective is \<open>Re Tr(\<Delta>\<^sup>H W)\<close>, to be maximized.
\<close>

definition hermitize :: "ndarray \<Rightarrow> ndarray" where
  "hermitize a = \<lparr>shape = shape a, elems = (\<lambda>i j. (elems a i j + cnj (elems a j i)) / 2)\<rparr>"

definition loewner_le :: "ndarray \<Rightarrow> ndarray \<Rightarrow> bool" where
  "loewner_le a b \<longleftrightarrow> shape a = shape b \<and> psd (nd_sub b a)"

definition watrous_feasible :: "nat \<Rightarrow> ndarray \<Rightarrow> ndarray \<Rightarrow> bool" where
  "watrous_feasible d rho w \<longleftrightarrow>
     shape rho = (d, d) \<and> hermitian rho \<and> psd rho \<and> nd_trace rho = 1 \<and>
     shape w = (d * d, d * d) \<and> hermitian w \<and> psd w \<and>
     loewner_le w (nd_kron (np_eye d) rho)"

definition watrous_objective :: "ndarray \<Rightarrow> ndarray \<Rightarrow> real" where
  "watrous_objective delta w = Re (nd_trace (nd_matmul (nd_T (nd_conj delta)) w))"

section \<open>The dual exclusion program, as the specification words it\<close>

text \<open>
  For a column vector \<open>v\<close> and a probability \<open>p\<close>, the weighted projector \<open>p v v\<^sup>H\<close>. The
  dual certificate \<open>Y\<close> is a \<open>d \<times> d\<close> Hermitian array below every weighted projector of
  the ensemble; the objective is \<open>Tr(Y)\<close>, to be maximized.
\<close>

definition scaled_projector :: "real \<Rightarrow> ndarray \<Rightarrow> ndarray" where
  "scaled_projector p v =
     \<lparr>shape = (fst (shape v), fst (shape v)),
      elems = (\<lambda>r c. complex_of_real p * elems v r 0 * cnj (elems v c 0))\<rparr>"

definition exclusion_dual_feasible :: "nat \<Rightarrow> ndarray list \<Rightarrow> real list \<Rightarrow> ndarray \<Rightarrow> bool" where
  "exclusion_dual_feasible d vectors probs y \<longleftrightarrow>
     shape y = (d, d) \<and> hermitian y \<and>
     (\<forall>i < length vectors. loewner_le y (scaled_projector (probs ! i) (vectors ! i)))"

section \<open>Concrete inputs\<close>

text \<open>An array of zeros and the \<open>k\<close>-th basis vector as a column of \<open>n\<close> entries.\<close>

definition np_zeros :: "nat \<Rightarrow> nat \<Rightarrow> ndarray" where
  "np_zeros r c = \<lparr>shape = (r, c), elems = (\<lambda>i j. 0)\<rparr>"

definition basis_column :: "nat \<Rightarrow> nat \<Rightarrow> ndarray" where
  "basis_column n k = \<lparr>shape = (n, 1), elems = (\<lambda>i j. if i = k then 1 else 0)\<rparr>"

text \<open>
  The array with a one in its first diagonal entry and zeros elsewhere, and an assignment
  that gives it to \<open>rho\<close> and zeros to every other variable.
\<close>

definition first_diagonal_unit :: "nat \<Rightarrow> ndarray" where
  "first_diagonal_unit n = \<lparr>shape = (n, n), elems = (\<lambda>i j. if i = 0 \<and> j = 0 then 1 else 0)\<rparr>"

definition pure_state_assignment :: "nat \<Rightarrow> string \<Rightarrow> ndarray" where
  "pure_state_assignment d x = (if x = ''rho'' then first_diagonal_unit d else np_zeros (d * d) (d * d))"

text \<open>A cvxpy solver that reports a fixed value, and arithmetic that never rounds.\<close>

definition fixed_value_solver :: "real \<Rightarrow> problem \<Rightarrow> error + real" where
  "fixed_value_solver v p = Inr v"


text \<open>A solver that never answers, and one that reports a fixed value with zero duals.\<close>

definition failing_solver :: picos_solver where
  "failing_solver p s = Inl (SolverError ''no answer'')"

definition constant_solver :: "real \<Rightarrow> picos_solver" where
  "constant_solver v p s = Inr \<lparr>sol_value = v, constraint_dual = (\<lambda>k. np_zeros 2 2)\<rparr>"



section \<open>Arithmetic of the square root\<close>

lemma isqrt_bounds: "isqrt n * isqrt n \<le> n \<and> n < (isqrt n + 1) * (isqrt n + 1)"
  by (induction n) (auto simp: Let_def)

lemma isqrt_square: "isqrt (d * d) = d"
proof -
  let ?r = "isqrt (d * d)"
  have le: "?r * ?r \<le> d * d" and lt: "d * d < (?r + 1) * (?r + 1)"
    using isqrt_bounds [of "d * d"] by auto
  have "?r \<le> d"
  proof (rule ccontr)
    assume "\<not> ?r \<le> d"
    then have "d + 1 \<le> ?r" by simp
    then have "(d + 1) * (d + 1) \<le> ?r * ?r" by (simp only: mult_le_mono)
    with le show False by simp
  qed
  moreover have "d \<le> ?r"
  proof (rule ccontr)
    assume "\<not> d \<le> ?r"
    then have "?r + 1 \<le> d" by simp
    then have "(?r + 1) * (?r + 1) \<le> d * d" by (simp only: mult_le_mono)
    with lt show False by simp
  qed
  ultimately show ?thesis by simp
qed

text \<open>
  The two integer functions agree with the real square root: \<open>isqrt\<close> is its floor and
  \<open>round_sqrt\<close> its nearest integer (the root of a natural number is never a half).
\<close>

lemma isqrt_floor_sqrt: "int (isqrt n) = \<lfloor>sqrt (real n)\<rfloor>"
proof -
  let ?r = "isqrt n"
  have le: "?r * ?r \<le> n" and lt: "n < (?r + 1) * (?r + 1)"
    using isqrt_bounds [of n] by auto
  have "real (?r * ?r) \<le> real n" using le by (simp only: of_nat_le_iff)
  then have "(real ?r)\<^sup>2 \<le> real n" by (simp add: power2_eq_square)
  then have lo: "real ?r \<le> sqrt (real n)" by (rule real_le_rsqrt)
  have "real n < real ((?r + 1) * (?r + 1))" using lt by (simp only: of_nat_less_iff)
  then have "real n < (real ?r + 1)\<^sup>2" by (simp add: power2_eq_square algebra_simps)
  then have hi: "sqrt (real n) < real ?r + 1" by (intro real_less_lsqrt) simp_all
  show ?thesis using lo hi by (intro floor_unique [symmetric]) simp_all
qed

lemma round_sqrt_round: "int (round_sqrt n) = round (sqrt (real n))"
proof -
  let ?r = "isqrt n"
  have le: "?r * ?r \<le> n" and lt: "n < (?r + 1) * (?r + 1)"
    using isqrt_bounds [of n] by auto
  show ?thesis
  proof (cases "n - ?r * ?r \<le> ?r")
    case True
    then have "n \<le> ?r * ?r + ?r" by simp
    then have "real n \<le> real (?r * ?r + ?r)" by (simp only: of_nat_le_iff)
    then have "real n < (real ?r + 1 / 2)\<^sup>2" by (simp add: power2_eq_square field_simps)
    then have hi: "sqrt (real n) < real ?r + 1 / 2" by (intro real_less_lsqrt) simp_all
    have "real (?r * ?r) \<le> real n" using le by (simp only: of_nat_le_iff)
    then have "(real ?r)\<^sup>2 \<le> real n" by (simp add: power2_eq_square)
    then have lo: "real ?r \<le> sqrt (real n)" by (rule real_le_rsqrt)
    have "\<lfloor>sqrt (real n) + 1 / 2\<rfloor> = int ?r"
      using lo hi by (intro floor_unique) simp_all
    then show ?thesis using True by (simp add: round_sqrt_def round_def)
  next
    case False
    then have "?r * ?r + ?r + 1 \<le> n" by simp
    then have "real (?r * ?r + ?r + 1) \<le> real n" by (simp only: of_nat_le_iff)
    then have "(real ?r + 1 / 2)\<^sup>2 \<le> real n" by (simp add: power2_eq_square field_simps)
    then have lo: "real ?r + 1 / 2 \<le> sqrt (real n)" by (rule real_le_rsqrt)
    have "real n < real ((?r + 1) * (?r + 1))" using lt by (simp only: of_nat_less_iff)
    then have "real n < (real ?r + 1)\<^sup>2" by (simp add: power2_eq_square algebra_simps)
    then have hi: "sqrt (real n) < real ?r + 1" by (intro real_less_lsqrt) simp_all
    have "\<lfloor>sqrt (real n) + 1 / 2\<rfloor> = int ?r + 1"
      using lo hi by (intro floor_unique) simp_all
    then show ?thesis using False by (simp add: round_sqrt_def round_def)
  qed
qed

lemma perfect_square_iff: "(\<exists>d. s = d * d) \<longleftrightarrow> isqrt s * isqrt s = s"
proof
  assume "\<exists>d. s = d * d"
  then obtain d where "s = d * d" ..
  then show "isqrt s * isqrt s = s" by (simp add: isqrt_square)
next
  assume "isqrt s * isqrt s = s"
  then have "s = isqrt s * isqrt s" by simp
  then show "\<exists>d. s = d * d" ..
qed

lemma isqrt_one_iff:
  assumes "isqrt s * isqrt s \<noteq> s"
  shows "isqrt s = 1 \<longleftrightarrow> s = 2 \<or> s = 3"
proof
  assume one: "isqrt s = 1"
  with isqrt_bounds [of s] assms have "1 \<le> s" "s < 4" "s \<noteq> 1" by auto
  then show "s = 2 \<or> s = 3" by arith
next
  assume "s = 2 \<or> s = 3"
  then show "isqrt s = 1" by (auto simp: eval_nat_numeral)
qed

section \<open>Arrays under broadcasting, and positivity\<close>


lemma quad_form_cong:
  assumes "shape a = shape b"
    and "\<And>i j. i < fst (shape a) \<Longrightarrow> j < snd (shape a) \<Longrightarrow> elems a i j = elems b i j"
  shows "quad_form a x = quad_form b x"
  unfolding quad_form_def using assms by (auto intro!: sum.cong)

lemma psd_cong:
  assumes "shape a = shape b"
    and "\<And>i j. i < fst (shape a) \<Longrightarrow> j < snd (shape a) \<Longrightarrow> elems a i j = elems b i j"
  shows "psd a = psd b"
  unfolding psd_def using quad_form_cong [OF assms] assms(1) by simp

lemma shape_broadcast_sub: "shape a = shape b \<Longrightarrow> shape (broadcast_sub a b) = shape a"
  by (simp add: broadcast_sub_def nd_sub_def)

lemma elems_broadcast_sub:
  "shape a = shape b \<Longrightarrow> i < fst (shape a) \<Longrightarrow> j < snd (shape a) \<Longrightarrow>
   elems (broadcast_sub a b) i j = elems a i j - elems b i j"
  by (auto simp: broadcast_sub_def nd_sub_def)

lemma all_zero_broadcast_sub:
  assumes "shape a = shape b"
  shows "all_zero (broadcast_sub a b) \<longleftrightarrow>
         (\<forall>i < fst (shape a). \<forall>j < snd (shape a). elems a i j = elems b i j)"
  unfolding all_zero_def using assms
  by (simp add: shape_broadcast_sub elems_broadcast_sub)

lemma psd_geq_zero: "psd (broadcast_sub a (scalar 0)) = psd a"
  by (rule psd_cong) (auto simp: broadcast_sub_def scalar_def)

lemma broadcast_sub_scalar_left:
  "broadcast_sub (scalar z) x = \<lparr>shape = shape x, elems = (\<lambda>i j. z - elems x i j)\<rparr>"
  by (simp add: broadcast_sub_def scalar_def)

lemma psd_leq_zero:
  assumes "shape a = shape b"
  shows "psd (broadcast_sub (scalar 0) (broadcast_sub a b)) = psd (nd_sub b a)"
proof (rule psd_cong)
  show "shape (broadcast_sub (scalar 0) (broadcast_sub a b)) = shape (nd_sub b a)"
    using assms by (simp add: broadcast_sub_scalar_left shape_broadcast_sub nd_sub_def)
next
  fix i j
  assume "i < fst (shape (broadcast_sub (scalar 0) (broadcast_sub a b)))"
    and "j < snd (shape (broadcast_sub (scalar 0) (broadcast_sub a b)))"
  then have "i < fst (shape a)" "j < snd (shape a)"
    using assms by (simp_all add: broadcast_sub_scalar_left shape_broadcast_sub)
  then show "elems (broadcast_sub (scalar 0) (broadcast_sub a b)) i j = elems (nd_sub b a) i j"
    using assms elems_broadcast_sub [OF assms, of i j]
    by (simp add: broadcast_sub_scalar_left nd_sub_def)
qed

lemma shape_scalar: "shape (scalar z) = (1, 1)"
  by (simp add: scalar_def)

lemma elems_scalar: "elems (scalar z) i j = z"
  by (simp add: scalar_def)

lemma compatible_scalar: "compatible a (scalar z)" "compatible (scalar z) a"
  by (simp_all add: compatible_def broadcastable_def scalar_def)

lemma all_zero_scalars: "all_zero (broadcast_sub (scalar z) (scalar w)) \<longleftrightarrow> z = w"
  by (simp add: all_zero_def broadcast_sub_def scalar_def)

lemma hermitian_iff:
  assumes "shape a = (n, n)"
  shows "(compatible a (nd_T (nd_conj a)) \<and> all_zero (broadcast_sub a (nd_T (nd_conj a))))
          \<longleftrightarrow> hermitian a"
proof -
  have s: "shape a = shape (nd_T (nd_conj a))" using assms by (simp add: nd_T_def nd_conj_def)
  show ?thesis
    using assms all_zero_broadcast_sub [OF s]
    by (simp add: compatible_def broadcastable_def hermitian_def nd_T_def nd_conj_def)
qed

lemma hermitize_code:
  assumes "fst (shape a) = snd (shape a)"
  shows "nd_div (nd_add (nd_T (nd_conj a)) a) 2 = hermitize a"
  using assms by (simp add: nd_div_def nd_add_def nd_T_def nd_conj_def hermitize_def add.commute prod_eq_iff)

text \<open>
  A diagonal array with non-negative real entries is positive semidefinite. So the pair
  \<open>\<rho> = |0\<rangle>\<langle>0|\<close>, \<open>W = 0\<close> satisfies the constraints of the Watrous program.
\<close>

lemma quad_form_diagonal:
  assumes "shape a = (n, n)"
    and "\<And>i j. i < n \<Longrightarrow> j < n \<Longrightarrow> elems a i j = (if i = j then complex_of_real (c i) else 0)"
  shows "quad_form a x = complex_of_real (\<Sum>i < n. c i * (cmod (x i))\<^sup>2)"
proof -
  have "quad_form a x = (\<Sum>i < n. \<Sum>j < n. cnj (x i) * elems a i j * x j)"
    using assms(1) by (simp add: quad_form_def)
  also have "\<dots> = (\<Sum>i < n. \<Sum>j < n. if i = j then cnj (x i) * complex_of_real (c i) * x j else 0)"
    by (intro sum.cong refl) (simp add: assms(2))
  also have "\<dots> = (\<Sum>i < n. cnj (x i) * complex_of_real (c i) * x i)"
    by (intro sum.cong refl) (simp add: sum.delta)
  also have "\<dots> = (\<Sum>i < n. complex_of_real (c i * (cmod (x i))\<^sup>2))"
  proof (intro sum.cong refl)
    fix i
    have "cnj (x i) * complex_of_real (c i) * x i = complex_of_real (c i) * (x i * cnj (x i))"
      by (simp add: mult_ac)
    also have "\<dots> = complex_of_real (c i * (cmod (x i))\<^sup>2)"
      by (simp add: complex_norm_square [symmetric])
    finally show "cnj (x i) * complex_of_real (c i) * x i = complex_of_real (c i * (cmod (x i))\<^sup>2)" .
  qed
  also have "\<dots> = complex_of_real (\<Sum>i < n. c i * (cmod (x i))\<^sup>2)" by simp
  finally show ?thesis .
qed

lemma psd_diagonal:
  assumes "shape a = (n, n)"
    and "\<And>i j. i < n \<Longrightarrow> j < n \<Longrightarrow> elems a i j = (if i = j then complex_of_real (c i) else 0)"
    and "\<And>i. i < n \<Longrightarrow> 0 \<le> c i"
  shows "psd a"
proof -
  have "0 \<le> (\<Sum>i < n. c i * (cmod (x i))\<^sup>2)" for x :: "nat \<Rightarrow> complex"
    by (intro sum_nonneg mult_nonneg_nonneg) (simp_all add: assms(3))
  then show ?thesis
    using assms(1) by (simp add: psd_def quad_form_diagonal [OF assms(1,2)])
qed

lemma kron_diagonal:
  assumes "0 < d" "i < d * d" "j < d * d"
  shows "elems (nd_kron (np_eye d) (first_diagonal_unit d)) i j =
         (if i = j then complex_of_real (if i mod d = 0 then 1 else 0) else 0)"
proof -
  have "i = j" if "i div d = j div d" "i mod d = 0" "j mod d = 0"
    using that by (metis div_mult_mod_eq)
  then show ?thesis
    by (auto simp: nd_kron_def np_eye_def first_diagonal_unit_def)
qed

lemma pure_state_feasible:
  assumes "0 < d"
  shows "watrous_feasible d (first_diagonal_unit d) (np_zeros (d * d) (d * d))"
proof -
  let ?rho = "first_diagonal_unit d" and ?w = "np_zeros (d * d) (d * d)"
  let ?k = "nd_kron (np_eye d) ?rho"
  have "hermitian ?rho" by (simp add: hermitian_def first_diagonal_unit_def)
  moreover have "psd ?rho"
    by (rule psd_diagonal [where n = d and c = "\<lambda>i. if i = 0 then 1 else 0"])
       (auto simp: first_diagonal_unit_def)
  moreover have "nd_trace ?rho = 1"
    using assms by (simp add: nd_trace_def first_diagonal_unit_def sum.delta)
  moreover have "hermitian ?w" by (simp add: hermitian_def np_zeros_def)
  moreover have "psd ?w"
    by (rule psd_diagonal [where n = "d * d" and c = "\<lambda>i. 0"]) (auto simp: np_zeros_def)
  moreover have "loewner_le ?w ?k"
  proof -
    have "psd (nd_sub ?k ?w)"
    proof (rule psd_diagonal [where n = "d * d" and c = "\<lambda>i. if i mod d = 0 then 1 else 0"])
      show "shape (nd_sub ?k ?w) = (d * d, d * d)"
        by (simp add: nd_sub_def nd_kron_def np_eye_def first_diagonal_unit_def)
    next
      fix i j assume "i < d * d" "j < d * d"
      then show "elems (nd_sub ?k ?w) i j =
          (if i = j then complex_of_real (if i mod d = 0 then 1 else 0) else 0)"
        using kron_diagonal [OF assms, of i j] by (simp add: nd_sub_def np_zeros_def)
    next
      fix i show "0 \<le> (if i mod d = 0 then 1 else 0 :: real)" by simp
    qed
    then show ?thesis
      by (simp add: loewner_le_def nd_kron_def np_eye_def first_diagonal_unit_def np_zeros_def)
  qed
  ultimately show ?thesis
    by (simp add: watrous_feasible_def first_diagonal_unit_def np_zeros_def)
qed

section \<open>The program built by \<open>diamond_norm\<close>\<close>



lemma diamond_norm_problem_square:
  assumes "shape choi_1 = (s, s)" "shape choi_2 = (s, s)"
    and "isqrt s * isqrt s = s \<or> isqrt s = 1"
  shows "diamond_norm_problem choi_1 choi_2 =
     Inr \<lparr>objective = Maximize (Real (Trace (MatMul (Herm (Parameter ''j_var'' s s))
                                                    (Variable ''w_var'' s s)))),
          constraints =
            [Eq (Variable ''rho'' (isqrt s) (isqrt s)) (Herm (Variable ''rho'' (isqrt s) (isqrt s))),
             Geq (Variable ''rho'' (isqrt s) (isqrt s)) (Num 0),
             Eq (Trace (Variable ''rho'' (isqrt s) (isqrt s))) (Num 1),
             Eq (Variable ''w_var'' s s) (Herm (Variable ''w_var'' s s)),
             Geq (Variable ''w_var'' s s) (Num 0),
             Leq (Sub (Variable ''w_var'' s s)
                      (Kron (Const (np_eye (isqrt s))) (Variable ''rho'' (isqrt s) (isqrt s))))
                 (Num 0)],
          param_values = [''j_var'' \<mapsto> hermitize (nd_sub choi_1 choi_2)]\<rparr>"
proof -
  have "fst (shape (nd_sub choi_1 choi_2)) = snd (shape (nd_sub choi_1 choi_2))"
    using assms by (simp add: nd_sub_def)
  then have "nd_div (nd_add (nd_T (nd_conj (nd_sub choi_1 choi_2))) (nd_sub choi_1 choi_2)) 2
      = hermitize (nd_sub choi_1 choi_2)"
    by (rule hermitize_code)
  then show ?thesis using assms
    by (auto simp: diamond_norm_problem_def Let_def broadcastable_def)
qed

lemma diamond_norm_problem_mismatch:
  assumes "shape choi_1 = (s, s)" "shape choi_2 = (s, s)"
    and "isqrt s * isqrt s \<noteq> s" and "isqrt s \<noteq> 1"
  shows "diamond_norm_problem choi_1 choi_2 =
           Inl (ValueError ''cvxpy: cannot broadcast dimensions'')"
proof -
  have "isqrt s * isqrt s \<noteq> 1" using assms(4) by simp
  then show ?thesis using assms
    by (auto simp: diamond_norm_problem_def Let_def broadcastable_def)
qed

lemma watrous_feasible_iff:
  assumes P: "P = \<lparr>objective = obj,
          constraints =
            [Eq (Variable ''rho'' d d) (Herm (Variable ''rho'' d d)),
             Geq (Variable ''rho'' d d) (Num 0),
             Eq (Trace (Variable ''rho'' d d)) (Num 1),
             Eq (Variable ''w_var'' (d * d) (d * d)) (Herm (Variable ''w_var'' (d * d) (d * d))),
             Geq (Variable ''w_var'' (d * d) (d * d)) (Num 0),
             Leq (Sub (Variable ''w_var'' (d * d) (d * d))
                      (Kron (Const (np_eye d)) (Variable ''rho'' d d)))
                 (Num 0)],
          param_values = pv\<rparr>"
  shows "feasible env P \<longleftrightarrow> watrous_feasible d (env ''rho'') (env ''w_var'')"
proof (cases "shape (env ''rho'') = (d, d) \<and> shape (env ''w_var'') = (d * d, d * d)")
  case False
  then show ?thesis by (auto simp: P feasible_def watrous_feasible_def)
next
  case True
  then have r: "shape (env ''rho'') = (d, d)" and w: "shape (env ''w_var'') = (d * d, d * d)"
    by simp_all
  let ?K = "nd_kron (np_eye d) (env ''rho'')"
  have k: "shape (env ''w_var'') = shape ?K" using r w by (simp add: nd_kron_def np_eye_def)
  have h1: "sat env pv (Eq (Variable ''rho'' d d) (Herm (Variable ''rho'' d d))) \<longleftrightarrow>
      hermitian (env ''rho'')"
    using hermitian_iff [OF r] by simp
  have h2: "sat env pv (Eq (Variable ''w_var'' (d * d) (d * d)) (Herm (Variable ''w_var'' (d * d) (d * d)))) \<longleftrightarrow>
      hermitian (env ''w_var'')"
    using hermitian_iff [OF w] by simp
  have p1: "sat env pv (Geq (Variable ''rho'' d d) (Num 0)) \<longleftrightarrow> psd (env ''rho'')"
    by (simp add: psd_geq_zero compatible_scalar)
  have p2: "sat env pv (Geq (Variable ''w_var'' (d * d) (d * d)) (Num 0)) \<longleftrightarrow> psd (env ''w_var'')"
    by (simp add: psd_geq_zero compatible_scalar)
  have t: "sat env pv (Eq (Trace (Variable ''rho'' d d)) (Num 1)) \<longleftrightarrow> nd_trace (env ''rho'') = 1"
    by (simp add: all_zero_scalars compatible_scalar)
  have l: "sat env pv (Leq (Sub (Variable ''w_var'' (d * d) (d * d))
                      (Kron (Const (np_eye d)) (Variable ''rho'' d d))) (Num 0)) \<longleftrightarrow>
      loewner_le (env ''w_var'') ?K"
    using k psd_leq_zero [OF k] by (simp add: loewner_le_def compatible_scalar)
  show ?thesis
    unfolding feasible_def watrous_feasible_def P
    using r w by (simp add: h1 h2 p1 p2 t l del: sat.simps)
qed

lemma watrous_objective_eq:
  "objective_value env \<lparr>objective = Maximize (Real (Trace (MatMul (Herm (Parameter ''j_var'' s s))
                                                    (Variable ''w_var'' s s)))),
          constraints = cs, param_values = [''j_var'' \<mapsto> delta]\<rparr> = watrous_objective delta (env ''w_var'')"
  by (simp add: objective_value_def watrous_objective_def elems_scalar nd_real_def)

lemma hermitize_self_difference:
  "hermitize (nd_sub a a) = np_zeros (fst (shape a)) (snd (shape a))"
  by (simp add: hermitize_def nd_sub_def np_zeros_def)

lemma watrous_objective_zero: "watrous_objective (np_zeros r c) w = 0"
  by (simp add: watrous_objective_def nd_trace_def nd_matmul_def nd_T_def nd_conj_def np_zeros_def)

lemma same_channel_problem:
  assumes "shape choi = (d * d, d * d)"
  shows "diamond_norm_problem choi choi =
     Inr \<lparr>objective = Maximize (Real (Trace (MatMul (Herm (Parameter ''j_var'' (d * d) (d * d)))
                                                    (Variable ''w_var'' (d * d) (d * d))))),
          constraints =
            [Eq (Variable ''rho'' d d) (Herm (Variable ''rho'' d d)),
             Geq (Variable ''rho'' d d) (Num 0),
             Eq (Trace (Variable ''rho'' d d)) (Num 1),
             Eq (Variable ''w_var'' (d * d) (d * d)) (Herm (Variable ''w_var'' (d * d) (d * d))),
             Geq (Variable ''w_var'' (d * d) (d * d)) (Num 0),
             Leq (Sub (Variable ''w_var'' (d * d) (d * d))
                      (Kron (Const (np_eye d)) (Variable ''rho'' d d)))
                 (Num 0)],
          param_values = [''j_var'' \<mapsto> np_zeros (d * d) (d * d)]\<rparr>"
proof -
  have "isqrt (d * d) * isqrt (d * d) = d * d \<or> isqrt (d * d) = 1" by (simp add: isqrt_square)
  from diamond_norm_problem_square [OF assms assms this] assms
  show ?thesis by (simp add: hermitize_self_difference isqrt_square)
qed

section \<open>The program built by the dual mode\<close>

lemma weighted_outer_column:
  "snd (shape v) = 1 \<Longrightarrow> weighted_outer p v = scaled_projector p v"
  by (simp add: weighted_outer_def scaled_projector_def nd_matmul_def nd_scale_def nd_T_def nd_conj_def)

lemma psd_broadcast_sub:
  assumes "shape a = shape b"
  shows "psd (broadcast_sub a b) = psd (nd_sub a b)"
  by (rule psd_cong) (use assms in \<open>simp_all add: shape_broadcast_sub elems_broadcast_sub nd_sub_def\<close>)

lemma dual_constraints:
  "map (\<lambda>(i, vector). Leq y (Const (weighted_outer (probs ! i) vector))) (List.enumerate 0 vectors)
   = map (\<lambda>i. Leq y (Const (weighted_outer (probs ! i) (vectors ! i)))) [0..<length vectors]"
  by (rule nth_equalityI) (simp_all add: nth_enumerate_eq)

lemma min_error_dual_run:
  assumes "vectors = v0 # vs" "length vectors \<le> length probs" "0 < fst (shape v0)"
  shows "min_error_dual solve vectors probs solver =
     (case solve \<lparr>objective = Maximize (Trace (HermitianVariable ''Y'' (fst (shape v0)) (fst (shape v0)))),
                  constraints = map (\<lambda>i. Leq (HermitianVariable ''Y'' (fst (shape v0)) (fst (shape v0)))
                                         (Const (weighted_outer (probs ! i) (vectors ! i))))
                                    [0..<length vectors],
                  param_values = Map.empty\<rparr> solver of
        Inl e \<Rightarrow> Inl e
      | Inr solution \<Rightarrow>
          Inr (sol_value solution,
               map (\<lambda>k. DualValue (constraint_dual solution k)) [0..<length vectors]))"
proof -
  have len: "\<not> length probs < Suc (length vs)" using assms by simp
  show ?thesis
    unfolding min_error_dual_def Let_def dual_constraints
    using len assms(3) by (simp add: assms(1))
qed

lemma dual_feasible_iff:
  assumes "vectors \<noteq> []" "\<forall>v \<in> set vectors. shape v = (d, 1)"
    and P: "P = \<lparr>objective = obj,
                  constraints = map (\<lambda>i. Leq (HermitianVariable ''Y'' d d)
                                         (Const (weighted_outer (probs ! i) (vectors ! i))))
                                    [0..<length vectors],
                  param_values = pv\<rparr>"
  shows "feasible env P \<longleftrightarrow> exclusion_dual_feasible d vectors probs (env ''Y'')"
proof -
  have n: "0 < length vectors" using assms(1) by simp
  have col: "weighted_outer (probs ! i) (vectors ! i) = scaled_projector (probs ! i) (vectors ! i)"
    and sh: "shape (scaled_projector (probs ! i) (vectors ! i)) = (d, d)"
    if "i < length vectors" for i
    using that assms(2) by (simp_all add: weighted_outer_column scaled_projector_def)
  have one: "sat env pv (Leq (HermitianVariable ''Y'' d d) (Const (weighted_outer (probs ! i) (vectors ! i))))
      \<longleftrightarrow> loewner_le (env ''Y'') (scaled_projector (probs ! i) (vectors ! i))"
    if "i < length vectors" "shape (env ''Y'') = (d, d)" for i
  proof -
    have s: "shape (scaled_projector (probs ! i) (vectors ! i)) = shape (env ''Y'')"
      using sh [OF that(1)] that(2) by simp
    show ?thesis
      using psd_broadcast_sub [OF s] s
      by (simp add: col [OF that(1)] loewner_le_def compatible_def broadcastable_def)
  qed
  show ?thesis
  proof (cases "shape (env ''Y'') = (d, d)")
    case True
    then show ?thesis
      unfolding feasible_def exclusion_dual_feasible_def P
      using n one by (auto simp: list_all_iff simp del: sat.simps)
  next
    case False
    then show ?thesis
      unfolding feasible_def exclusion_dual_feasible_def P
      using n by (auto simp: list_all_iff simp del: sat.simps)
  qed
qed

text \<open>With \<open>probs\<close> omitted, the list used has one entry per coordinate of the first vector.\<close>

lemma state_exclusion_default_probs:
  assumes "list_all (\<lambda>v. shape v = shape v0) vs" "0 < fst (shape v0)"
  shows "state_exclusion solve (v0 # vs) None solver primal_dual =
         state_exclusion solve (v0 # vs)
           (Some (replicate (fst (shape v0)) (1 / real (fst (shape v0))))) solver primal_dual"
  using assms by (simp add: state_exclusion_def Let_def)

section \<open>The \<open>int\<close> case of \<open>realignment\<close>\<close>






lemma np_round_of_int: "np_round (real_of_int k) = k"
  by (simp add: np_round_def)

text \<open>
  A non-zero \<open>dim\<close> that divides a positive row count passes the test, provided the doubles
  involved are exact: the quotient and zero are doubles, and the tolerance is positive.
\<close>

lemma int_dim_exact_divisor:
  assumes "d \<noteq> 0" and "d dvd int rows"
    and "fl (real rows / real_of_int d) = real rows / real_of_int d"
    and "fl 0 = 0" and "0 < fl (fl (2 * real rows) * eps)"
  shows "int_dim fl rows d = Inr [[1], [4]]"
proof -
  from assms(2) obtain k where k: "int rows = d * k" by (auto simp: dvd_def)
  have "real_of_int (int rows) = real_of_int (d * k)" by (simp only: k)
  then have "real rows = real_of_int d * real_of_int k" by simp
  then have q: "real rows / real_of_int d = real_of_int k" using assms(1) by simp
  have e: "fl (real_of_int k) = real_of_int k" using assms(3) by (simp only: q)
  show ?thesis
    using assms(1,4,5) by (simp add: int_dim_def Let_def q e np_round_of_int)
qed

section \<open>The claims\<close>



text \<open>
  C3. The claim: with \<open>probs\<close> omitted, \<open>state_exclusion\<close> uses the uniform distribution
  with one entry \<open>1/n\<close> per ensemble member, \<open>n\<close> the number of vectors. The code takes
  \<open>n\<close> from the first vector's number of rows instead. For two vectors of four entries it
  runs with four weights \<open>1/4\<close> (so the two it uses sum to \<open>1/2\<close>), and for three vectors
  of two entries the list of weights is too short and \<open>probs[2]\<close> raises \<open>IndexError\<close>, in
  either mode.
\<close>

theorem state_exclusion_default_probs_by_dimension:
  "state_exclusion solve [basis_column 4 0, basis_column 4 1] None solver primal_dual =
     state_exclusion solve [basis_column 4 0, basis_column 4 1]
       (Some [1 / 4, 1 / 4, 1 / 4, 1 / 4]) solver primal_dual \<and>
   state_exclusion solve [basis_column 2 0, basis_column 2 1, basis_column 2 0] None solver primal_dual =
     Inl IndexError"
proof -
  have a: "list_all (\<lambda>v. shape v = shape (basis_column 4 0)) [basis_column 4 1]"
    by (simp add: basis_column_def)
  have b: "fst (shape (basis_column 4 0)) = 4" by (simp add: basis_column_def)
  have r: "replicate 4 (1 / 4 :: real) = [1 / 4, 1 / 4, 1 / 4, 1 / 4]"
    by (simp add: eval_nat_numeral)
  have one: "state_exclusion solve [basis_column 4 0, basis_column 4 1] None solver primal_dual =
     state_exclusion solve [basis_column 4 0, basis_column 4 1]
       (Some [1 / 4, 1 / 4, 1 / 4, 1 / 4]) solver primal_dual"
    using state_exclusion_default_probs [OF a, of solve solver primal_dual] b r by simp
  have two: "state_exclusion solve [basis_column 2 0, basis_column 2 1, basis_column 2 0] None solver primal_dual =
     Inl IndexError"
    by (simp add: state_exclusion_def basis_column_def min_error_primal_def min_error_dual_def Let_def
        eval_nat_numeral)
  from one two show ?thesis by blast
qed

text \<open>
  C4. In dual mode, for a non-empty ensemble of \<open>n\<close> column vectors of \<open>d \<ge> 1\<close> entries
  with one probability each, \<open>state_exclusion\<close> hands the solver a problem over the single
  Hermitian variable \<open>Y\<close> whose constraints are, in order, \<open>Y \<preceq> p\<^sub>i v\<^sub>i v\<^sub>i\<^sup>H\<close> for
  \<open>i = 0, \<dots>, n - 1\<close> and whose objective is to maximize \<open>Tr(Y)\<close>; the operators it
  returns are the solver's dual values of the constraints \<open>0, \<dots>, n - 1\<close>, one per ensemble
  member, and not the value of \<open>Y\<close>.
\<close>

theorem state_exclusion_dual_program:
  assumes "0 < d" and "vectors \<noteq> []" and "\<forall>v \<in> set vectors. shape v = (d, 1)"
    and "length probs = length vectors" and "arg_default ''dual'' primal_dual \<noteq> ''primal''"
  shows "\<exists>P y.
           y = HermitianVariable ''Y'' d d \<and>
           objective P = Maximize (Trace y) \<and>
           constraints P =
             map (\<lambda>i. Leq y (Const (weighted_outer (probs ! i) (vectors ! i)))) [0..<length vectors] \<and>
           (\<forall>env. feasible env P \<longleftrightarrow> exclusion_dual_feasible d vectors probs (env ''Y'')) \<and>
           (\<forall>env. objective_value env P = Re (nd_trace (env ''Y''))) \<and>
           state_exclusion solve vectors (Some probs) solver primal_dual =
             (case solve P (arg_default ''cvxopt'' solver) of
                Inl e \<Rightarrow> Inl e
              | Inr solution \<Rightarrow>
                  Inr (sol_value solution,
                       map (\<lambda>k. DualValue (constraint_dual solution k)) [0..<length vectors]))"
proof -
  from assms(2) obtain v0 vs where vs: "vectors = v0 # vs" by (cases vectors) auto
  have d: "fst (shape v0) = d" using assms(3) vs by simp
  have pos: "0 < fst (shape v0)" using assms(1) d by simp
  have same: "list_all (\<lambda>v. shape v = shape v0) vs"
    using assms(3) vs by (simp add: list_all_iff)
  let ?y = "HermitianVariable ''Y'' d d"
  let ?P = "\<lparr>objective = Maximize (Trace ?y),
             constraints = map (\<lambda>i. Leq ?y (Const (weighted_outer (probs ! i) (vectors ! i))))
                               [0..<length vectors],
             param_values = Map.empty\<rparr>"
  have feas: "feasible env ?P \<longleftrightarrow> exclusion_dual_feasible d vectors probs (env ''Y'')" for env
    by (rule dual_feasible_iff [OF assms(2,3)]) (rule refl)
  have obj: "objective_value env ?P = Re (nd_trace (env ''Y''))" for env
    by (simp add: objective_value_def elems_scalar)
  have "state_exclusion solve vectors (Some probs) solver primal_dual =
      min_error_dual solve vectors probs (arg_default ''cvxopt'' solver)"
    using assms(5) same by (simp add: state_exclusion_def vs)
  also have "\<dots> = (case solve ?P (arg_default ''cvxopt'' solver) of
                Inl e \<Rightarrow> Inl e
              | Inr solution \<Rightarrow>
                  Inr (sol_value solution,
                       map (\<lambda>k. DualValue (constraint_dual solution k)) [0..<length vectors]))"
    using min_error_dual_run [OF vs _ pos, of probs solve "arg_default ''cvxopt'' solver"] assms(4) d
    by simp
  finally have run: "state_exclusion solve vectors (Some probs) solver primal_dual =
      (case solve ?P (arg_default ''cvxopt'' solver) of
                Inl e \<Rightarrow> Inl e
              | Inr solution \<Rightarrow>
                  Inr (sol_value solution,
                       map (\<lambda>k. DualValue (constraint_dual solution k)) [0..<length vectors]))" .
  have o: "objective ?P = Maximize (Trace ?y)" and c: "constraints ?P =
             map (\<lambda>i. Leq ?y (Const (weighted_outer (probs ! i) (vectors ! i)))) [0..<length vectors]"
    by simp_all
  from o c feas obj run show ?thesis by blast
qed

theorem state_exclusion_dual_program_witness:
  "(0::nat) < 2 \<and> [basis_column 2 0, basis_column 2 1] \<noteq> [] \<and>
   shape (basis_column 2 0) = (2, 1) \<and> shape (basis_column 2 1) = (2, 1) \<and>
   length [1 / 2, 1 / 2 :: real] = length [basis_column 2 0, basis_column 2 1] \<and>
   arg_default ''dual'' Omitted \<noteq> ''primal'' \<and>
   state_exclusion (constant_solver 0) [basis_column 2 0, basis_column 2 1] (Some [1 / 2, 1 / 2])
       Omitted Omitted =
     Inr (0, [DualValue (np_zeros 2 2), DualValue (np_zeros 2 2)])"
proof -
  have z: "(0::nat) < 2" by simp
  have a: "[basis_column 2 0, basis_column 2 1] \<noteq> []" by simp
  have b: "\<forall>v \<in> set [basis_column 2 0, basis_column 2 1]. shape v = (2, 1)"
    by (simp add: basis_column_def)
  have c: "length [1 / 2, 1 / 2 :: real] = length [basis_column 2 0, basis_column 2 1]" by simp
  have e: "arg_default ''dual'' Omitted \<noteq> ''primal''" by simp
  from state_exclusion_dual_program [OF z a b c e, of "constant_solver 0" Omitted]
  have "state_exclusion (constant_solver 0) [basis_column 2 0, basis_column 2 1] (Some [1 / 2, 1 / 2])
       Omitted Omitted =
     Inr (0, [DualValue (np_zeros 2 2), DualValue (np_zeros 2 2)])"
    by (auto simp: constant_solver_def)
  with z a b c e show ?thesis by simp
qed

text \<open>
  C5. \<open>diamond_norm\<close> raises a \<open>ValueError\<close> when the shapes of the two Choi matrices
  differ, and a \<open>ValueError\<close> when the (common) shape is not square. The shape comparison
  comes first, and in both cases no problem is built and the solver is never asked: the
  result is the error, whatever the solver.
\<close>

theorem diamond_norm_checks_shapes_first:
  "(shape choi_1 \<noteq> shape choi_2 \<longrightarrow>
      diamond_norm_problem choi_1 choi_2 =
        Inl (ValueError ''The Choi matrices provided should be of equal dimension.'') \<and>
      diamond_norm solve choi_1 choi_2 =
        Inl (ValueError ''The Choi matrices provided should be of equal dimension.'')) \<and>
   (shape choi_1 = shape choi_2 \<and> fst (shape choi_1) \<noteq> snd (shape choi_1) \<longrightarrow>
      diamond_norm_problem choi_1 choi_2 =
        Inl (ValueError ''The Choi matrix provided must be square.'') \<and>
      diamond_norm solve choi_1 choi_2 =
        Inl (ValueError ''The Choi matrix provided must be square.'')) \<and>
   (shape choi_1 \<noteq> shape choi_2 \<or> fst (shape choi_1) \<noteq> snd (shape choi_1) \<or>
    fst (shape choi_2) \<noteq> snd (shape choi_2) \<longrightarrow>
      (\<exists>e. is_ValueError e \<and> diamond_norm_problem choi_1 choi_2 = Inl e \<and>
           diamond_norm solve choi_1 choi_2 = Inl e))"
  by (auto simp: diamond_norm_def diamond_norm_problem_def split: prod.splits)

theorem diamond_norm_checks_shapes_first_witness:
  "shape (np_eye 4) \<noteq> shape (np_eye 2) \<and>
   diamond_norm (\<lambda>p. Inr 0) (np_eye 4) (np_eye 2) =
     Inl (ValueError ''The Choi matrices provided should be of equal dimension.'') \<and>
   shape (np_zeros 2 3) = shape (np_zeros 2 3) \<and>
   fst (shape (np_zeros 2 3)) \<noteq> snd (shape (np_zeros 2 3)) \<and>
   diamond_norm (\<lambda>p. Inr 0) (np_zeros 2 3) (np_zeros 2 3) =
     Inl (ValueError ''The Choi matrix provided must be square.'') \<and>
   diamond_norm (\<lambda>p. Inr 0) (np_zeros 2 3) (np_zeros 3 2) =
     Inl (ValueError ''The Choi matrices provided should be of equal dimension.'')"
  using diamond_norm_checks_shapes_first [of "np_eye 4" "np_eye 2" "\<lambda>p. Inr 0"]
    diamond_norm_checks_shapes_first [of "np_zeros 2 3" "np_zeros 2 3" "\<lambda>p. Inr 0"]
    diamond_norm_checks_shapes_first [of "np_zeros 2 3" "np_zeros 3 2" "\<lambda>p. Inr 0"]
  by (simp add: np_eye_def np_zeros_def)

text \<open>
  C6. When some vector of the ensemble has a shape other than the first vector's,
  \<open>state_exclusion\<close> raises the \<open>ValueError\<close> for unequal dimensions, in every mode and
  whatever the probabilities and the solver: no problem is built.
\<close>

theorem state_exclusion_rejects_unequal_shapes:
  "v \<in> set vectors \<Longrightarrow> shape v \<noteq> shape (hd vectors) \<Longrightarrow>
   state_exclusion solve vectors probs solver primal_dual =
     Inl (ValueError ''Vectors for state exclusion must all have the same dimension.'')"
  by (auto simp: state_exclusion_def list_all_iff)

theorem state_exclusion_rejects_unequal_shapes_witness:
  "basis_column 4 0 \<in> set [basis_column 2 0, basis_column 4 0] \<and>
   shape (basis_column 4 0) \<noteq> shape (hd [basis_column 2 0, basis_column 4 0]) \<and>
   state_exclusion failing_solver [basis_column 2 0, basis_column 4 0] None Omitted Omitted =
     Inl (ValueError ''Vectors for state exclusion must all have the same dimension.'') \<and>
   state_exclusion failing_solver [basis_column 2 0, basis_column 4 0] None Omitted (Given ''primal'') =
     Inl (ValueError ''Vectors for state exclusion must all have the same dimension.'')"
proof -
  have a: "basis_column 4 0 \<in> set [basis_column 2 0, basis_column 4 0]" by simp
  have b: "shape (basis_column 4 0) \<noteq> shape (hd [basis_column 2 0, basis_column 4 0])"
    by (simp add: basis_column_def)
  show ?thesis
    using a b state_exclusion_rejects_unequal_shapes [OF a b, of failing_solver None Omitted Omitted]
      state_exclusion_rejects_unequal_shapes [OF a b, of failing_solver None Omitted "Given ''primal''"]
    by simp
qed

text \<open>
  C7. For a Choi matrix \<open>J\<close> of shape \<open>d\<^sup>2 \<times> d\<^sup>2\<close> with \<open>d \<ge> 1\<close>, \<open>diamond_norm(J, J)\<close>
  builds a program whose parameter, the Hermitized difference, is the zero matrix. The
  objective is zero under every assignment and the program is feasible, so its optimal
  value is \<open>0\<close>. Whenever the solver reports a value within a tolerance of the optimal
  value, the result is within twice that tolerance of zero.
\<close>

theorem diamond_norm_same_channel:
  assumes "0 < d" and "shape choi = (d * d, d * d)"
  shows "\<exists>P. diamond_norm_problem choi choi = Inr P \<and>
             param_values P ''j_var'' = Some (np_zeros (d * d) (d * d)) \<and>
             (\<forall>env. objective_value env P = 0) \<and>
             optimal_value P 0 \<and>
             (\<forall>solve v opt tol.
                solve P = Inr v \<and> optimal_value P opt \<and> \<bar>v - opt\<bar> \<le> tol \<longrightarrow>
                (\<exists>r. diamond_norm solve choi choi = Inr r \<and> \<bar>r\<bar> \<le> 2 * tol))"
proof -
  let ?P = "\<lparr>objective = Maximize (Real (Trace (MatMul (Herm (Parameter ''j_var'' (d * d) (d * d)))
                                                    (Variable ''w_var'' (d * d) (d * d))))),
          constraints =
            [Eq (Variable ''rho'' d d) (Herm (Variable ''rho'' d d)),
             Geq (Variable ''rho'' d d) (Num 0),
             Eq (Trace (Variable ''rho'' d d)) (Num 1),
             Eq (Variable ''w_var'' (d * d) (d * d)) (Herm (Variable ''w_var'' (d * d) (d * d))),
             Geq (Variable ''w_var'' (d * d) (d * d)) (Num 0),
             Leq (Sub (Variable ''w_var'' (d * d) (d * d))
                      (Kron (Const (np_eye d)) (Variable ''rho'' d d)))
                 (Num 0)],
          param_values = [''j_var'' \<mapsto> np_zeros (d * d) (d * d)]\<rparr>"
  have built: "diamond_norm_problem choi choi = Inr ?P"
    by (rule same_channel_problem [OF assms(2)])
  have obj: "objective_value env ?P = 0" for env
    by (simp add: watrous_objective_eq watrous_objective_zero)
  have "feasible (pure_state_assignment d) ?P \<longleftrightarrow>
      watrous_feasible d (pure_state_assignment d ''rho'') (pure_state_assignment d ''w_var'')"
    by (rule watrous_feasible_iff) (rule refl)
  then have feas: "feasible (pure_state_assignment d) ?P"
    using pure_state_feasible [OF assms(1)] by (simp add: pure_state_assignment_def)
  have opt: "optimal_value ?P 0"
    unfolding optimal_value_def using feas obj by auto
  have zero: "opt = 0" if "optimal_value ?P opt" for opt
    using that obj unfolding optimal_value_def by auto
  have tol: "\<exists>r. diamond_norm solve choi choi = Inr r \<and> \<bar>r\<bar> \<le> 2 * tol"
    if "solve ?P = Inr v" "optimal_value ?P opt" "\<bar>v - opt\<bar> \<le> tol" for solve v opt tol
  proof -
    have "\<bar>v\<bar> \<le> tol" using that(3) zero [OF that(2)] by simp
    moreover have "diamond_norm solve choi choi = Inr (v * 2)"
      by (simp add: diamond_norm_def built that(1))
    ultimately show ?thesis by simp
  qed
  have pv: "param_values ?P ''j_var'' = Some (np_zeros (d * d) (d * d))" by simp
  from built pv obj opt tol show ?thesis by blast
qed

theorem diamond_norm_same_channel_witness:
  "(0::nat) < 2 \<and> shape (np_eye 4) = (2 * 2, 2 * 2) \<and>
   (\<exists>r. diamond_norm (fixed_value_solver (1 / 1000)) (np_eye 4) (np_eye 4) = Inr r \<and>
        \<bar>r\<bar> \<le> 2 * (1 / 1000))"
proof -
  have a: "(0::nat) < 2" by simp
  have b: "shape (np_eye 4) = (2 * 2, 2 * 2)" by (simp add: np_eye_def)
  from diamond_norm_same_channel [OF a b] obtain P where
    opt: "optimal_value P 0" and
    tol: "\<forall>solve v opt tol.
            solve P = Inr v \<and> optimal_value P opt \<and> \<bar>v - opt\<bar> \<le> tol \<longrightarrow>
            (\<exists>r. diamond_norm solve (np_eye 4) (np_eye 4) = Inr r \<and> \<bar>r\<bar> \<le> 2 * tol)"
    by blast
  have "fixed_value_solver (1 / 1000) P = Inr (1 / 1000)" by (simp add: fixed_value_solver_def)
  with tol [rule_format, of "fixed_value_solver (1 / 1000)" "1 / 1000" 0 "1 / 1000"] opt
  have "\<exists>r. diamond_norm (fixed_value_solver (1 / 1000)) (np_eye 4) (np_eye 4) = Inr r \<and>
      \<bar>r\<bar> \<le> 2 * (1 / 1000)"
    by simp
  with a b show ?thesis by blast
qed

text \<open>
  C8, as amended. \<open>diamond_norm\<close> has no check of its own that the side \<open>s\<close> of the Choi
  matrices is a perfect square. For square matrices of one shape whose side is not a
  perfect square, \<open>dim = int(sqrt(s))\<close> has \<open>dim\<^sup>2 < s\<close>. When \<open>dim = 1\<close>, that is for the
  sides \<open>2\<close> and \<open>3\<close>, the program is built with \<open>rho\<close> of side \<open>1\<close>, \<open>w_var\<close> of side \<open>s\<close>
  and a \<open>1 \<times> 1\<close> Kronecker factor, and twice the solver's value is returned. For every
  other such side no program is built: the difference at line 77 makes cvxpy raise
  \<open>ValueError\<close>, which is not one of the two errors \<open>diamond_norm\<close> raises itself.
\<close>

theorem diamond_norm_unchecked_side:
  assumes "shape choi_1 = (s, s)" and "shape choi_2 = (s, s)" and "\<not> (\<exists>d. s = d * d)"
  shows "isqrt s * isqrt s < s \<and>
         (isqrt s = 1 \<longleftrightarrow> s = 2 \<or> s = 3) \<and>
         (isqrt s = 1 \<longrightarrow>
            (\<exists>P. diamond_norm_problem choi_1 choi_2 = Inr P \<and>
                 last (constraints P) =
                   Leq (Sub (Variable ''w_var'' s s)
                            (Kron (Const (np_eye 1)) (Variable ''rho'' 1 1))) (Num 0) \<and>
                 diamond_norm solve choi_1 choi_2 =
                   (case solve P of Inl e \<Rightarrow> Inl e | Inr v \<Rightarrow> Inr (v * 2)))) \<and>
         (isqrt s \<noteq> 1 \<longrightarrow>
            diamond_norm_problem choi_1 choi_2 =
              Inl (ValueError ''cvxpy: cannot broadcast dimensions'') \<and>
            diamond_norm solve choi_1 choi_2 =
              Inl (ValueError ''cvxpy: cannot broadcast dimensions''))"
proof -
  have ns: "isqrt s * isqrt s \<noteq> s" using assms(3) by (simp add: perfect_square_iff)
  then have small: "isqrt s * isqrt s < s" using isqrt_bounds [of s] by simp
  have one: "isqrt s = 1 \<longleftrightarrow> s = 2 \<or> s = 3" by (rule isqrt_one_iff [OF ns])
  have built: "\<exists>P. diamond_norm_problem choi_1 choi_2 = Inr P \<and>
                 last (constraints P) =
                   Leq (Sub (Variable ''w_var'' s s)
                            (Kron (Const (np_eye 1)) (Variable ''rho'' 1 1))) (Num 0) \<and>
                 diamond_norm solve choi_1 choi_2 =
                   (case solve P of Inl e \<Rightarrow> Inl e | Inr v \<Rightarrow> Inr (v * 2))"
    if r: "isqrt s = 1"
  proof -
    have "isqrt s * isqrt s = s \<or> isqrt s = 1" using r by simp
    from diamond_norm_problem_square [OF assms(1,2) this]
    show ?thesis by (simp add: diamond_norm_def r)
  qed
  have raised: "diamond_norm_problem choi_1 choi_2 =
              Inl (ValueError ''cvxpy: cannot broadcast dimensions'') \<and>
            diamond_norm solve choi_1 choi_2 =
              Inl (ValueError ''cvxpy: cannot broadcast dimensions'')"
    if "isqrt s \<noteq> 1"
    using diamond_norm_problem_mismatch [OF assms(1,2) ns that] by (simp add: diamond_norm_def)
  from small one built raised show ?thesis by blast
qed

theorem diamond_norm_unchecked_side_witness:
  "shape (np_eye 3) = (3, 3) \<and> shape (np_zeros 3 3) = (3, 3) \<and> isqrt 3 = 1 \<and>
   diamond_norm (fixed_value_solver 1) (np_eye 3) (np_zeros 3 3) = Inr 2 \<and>
   shape (np_eye 5) = (5, 5) \<and> shape (np_zeros 5 5) = (5, 5) \<and> isqrt 5 = 2 \<and>
   diamond_norm (fixed_value_solver 1) (np_eye 5) (np_zeros 5 5) =
     Inl (ValueError ''cvxpy: cannot broadcast dimensions'')"
proof -
  have a3: "shape (np_eye 3) = (3, 3)" and b3: "shape (np_zeros 3 3) = (3, 3)"
    and a5: "shape (np_eye 5) = (5, 5)" and b5: "shape (np_zeros 5 5) = (5, 5)"
    by (simp_all add: np_eye_def np_zeros_def)
  have i3: "isqrt 3 = 1" and i5: "isqrt 5 = 2" by (simp_all add: eval_nat_numeral)
  have n3: "\<not> (\<exists>d::nat. 3 = d * d)"
    using perfect_square_iff [of 3] by (simp add: i3)
  have n5: "\<not> (\<exists>d::nat. 5 = d * d)"
    using perfect_square_iff [of 5] by (simp add: i5)
  from diamond_norm_unchecked_side [OF a3 b3 n3, of "fixed_value_solver 1"] i3
  have r3: "diamond_norm (fixed_value_solver 1) (np_eye 3) (np_zeros 3 3) = Inr 2"
    by (auto simp: fixed_value_solver_def)
  from diamond_norm_unchecked_side [OF a5 b5 n5, of "fixed_value_solver 1"] i5
  have r5: "diamond_norm (fixed_value_solver 1) (np_eye 5) (np_zeros 5 5) =
     Inl (ValueError ''cvxpy: cannot broadcast dimensions'')"
    by simp
  from a3 b3 i3 r3 a5 b5 i5 r5 show ?thesis by blast
qed

text \<open>
  The claim as worded says that every side that is not a perfect square goes through
  silently. At side \<open>5\<close> the two checks pass, \<open>dim\<close> is \<open>2\<close>, and the result is cvxpy's
  \<open>ValueError\<close>.
\<close>

theorem diamond_norm_side_five_raises:
  "shape (np_eye 5) = (5, 5) \<and> shape (np_zeros 5 5) = (5, 5) \<and> isqrt 5 * isqrt 5 \<noteq> 5 \<and>
   diamond_norm_problem (np_eye 5) (np_zeros 5 5) =
     Inl (ValueError ''cvxpy: cannot broadcast dimensions'') \<and>
   diamond_norm (fixed_value_solver 1) (np_eye 5) (np_zeros 5 5) =
     Inl (ValueError ''cvxpy: cannot broadcast dimensions'')"
proof -
  have a5: "shape (np_eye 5) = (5, 5)" and b5: "shape (np_zeros 5 5) = (5, 5)"
    by (simp_all add: np_eye_def np_zeros_def)
  have i5: "isqrt 5 = 2" by (simp add: eval_nat_numeral)
  have p: "diamond_norm_problem (np_eye 5) (np_zeros 5 5) =
     Inl (ValueError ''cvxpy: cannot broadcast dimensions'')"
    by (rule diamond_norm_problem_mismatch [OF a5 b5]) (simp_all add: i5)
  then have "diamond_norm (fixed_value_solver 1) (np_eye 5) (np_zeros 5 5) =
     Inl (ValueError ''cvxpy: cannot broadcast dimensions'')"
    by (simp add: diamond_norm_def)
  with a5 b5 i5 p show ?thesis by simp
qed

text \<open>
  C9. The mode defaults to \<open>"dual"\<close>, and every mode string other than \<open>"primal"\<close> runs
  the dual formulation: the result is that of mode \<open>"dual"\<close>, which for a valid ensemble
  with given probabilities is the result of \<open>_min_error_dual\<close>. No error is raised for an
  unknown mode.
\<close>

theorem state_exclusion_mode_defaults_to_dual:
  "state_exclusion solve vectors probs solver Omitted =
     state_exclusion solve vectors probs solver (Given ''dual'') \<and>
   (primal_dual \<noteq> ''primal'' \<longrightarrow>
      state_exclusion solve vectors probs solver (Given primal_dual) =
        state_exclusion solve vectors probs solver (Given ''dual'') \<and>
      (list_all (\<lambda>v. shape v = shape v0) vs \<longrightarrow>
         state_exclusion solve (v0 # vs) (Some ps) solver (Given primal_dual) =
           min_error_dual solve (v0 # vs) ps (arg_default ''cvxopt'' solver)))"
proof -
  have dual: "state_exclusion solve vectors probs solver (Given pd) =
      state_exclusion solve vectors probs solver (Given ''dual'')" if "pd \<noteq> ''primal''" for pd
    using that by (simp add: state_exclusion_def Let_def split: list.split option.split)
  have omitted: "state_exclusion solve vectors probs solver Omitted =
      state_exclusion solve vectors probs solver (Given ''dual'')"
    by (simp add: state_exclusion_def Let_def split: list.split option.split)
  have run: "state_exclusion solve (v0 # vs) (Some ps) solver (Given pd) =
      min_error_dual solve (v0 # vs) ps (arg_default ''cvxopt'' solver)"
    if "pd \<noteq> ''primal''" "list_all (\<lambda>v. shape v = shape v0) vs" for pd
    using that by (simp add: state_exclusion_def)
  show ?thesis using dual omitted run by blast
qed

theorem state_exclusion_mode_defaults_to_dual_witness:
  "''duel'' \<noteq> ''primal'' \<and>
   list_all (\<lambda>v. shape v = shape (basis_column 2 0)) [basis_column 2 1] \<and>
   state_exclusion (constant_solver 0) [basis_column 2 0, basis_column 2 1] (Some [1 / 2, 1 / 2])
       Omitted (Given ''duel'') =
     Inr (0, [DualValue (np_zeros 2 2), DualValue (np_zeros 2 2)]) \<and>
   state_exclusion (constant_solver 0) [basis_column 2 0, basis_column 2 1] (Some [1 / 2, 1 / 2])
       Omitted Omitted =
     Inr (0, [DualValue (np_zeros 2 2), DualValue (np_zeros 2 2)])"
proof -
  have a: "''duel'' \<noteq> ''primal''" by simp
  have b: "list_all (\<lambda>v. shape v = shape (basis_column 2 0)) [basis_column 2 1]"
    by (simp add: basis_column_def)
  have c: "min_error_dual (constant_solver 0) [basis_column 2 0, basis_column 2 1] [1 / 2, 1 / 2] ''cvxopt''
      = Inr (0, [DualValue (np_zeros 2 2), DualValue (np_zeros 2 2)])"
    by (simp add: min_error_dual_def constant_solver_def basis_column_def)
  let ?run = "state_exclusion (constant_solver 0) [basis_column 2 0, basis_column 2 1]
      (Some [1 / 2, 1 / 2]) Omitted"
  note inst = state_exclusion_mode_defaults_to_dual
         [of "constant_solver 0" "[basis_column 2 0, basis_column 2 1]" "Some [1 / 2, 1 / 2]" Omitted
             "''duel''" "basis_column 2 0" "[basis_column 2 1]" "[1 / 2, 1 / 2]"]
  have e1: "?run Omitted = ?run (Given ''dual'')" using inst by blast
  have e2: "?run (Given ''duel'') = ?run (Given ''dual'')" using inst a by blast
  have "?run (Given ''duel'') =
      min_error_dual (constant_solver 0) [basis_column 2 0, basis_column 2 1] [1 / 2, 1 / 2]
        (arg_default ''cvxopt'' Omitted)"
    using inst a b by blast
  then have "?run (Given ''duel'') =
      min_error_dual (constant_solver 0) [basis_column 2 0, basis_column 2 1] [1 / 2, 1 / 2] ''cvxopt''"
    by simp
  then have r1: "?run (Given ''duel'') = Inr (0, [DualValue (np_zeros 2 2), DualValue (np_zeros 2 2)])"
    by (simp only: c)
  have r2: "?run Omitted = Inr (0, [DualValue (np_zeros 2 2), DualValue (np_zeros 2 2)])"
    using e1 e2 r1 by (simp only:)
  show ?thesis using a b r1 r2 by blast
qed




end
